theory Spec2Isabelle
  imports Main "HOL-Library.Word" "HOL-Library.Sublist"
begin

section \<open>Python values used by the backend\<close>

text \<open>
  File content is \<^verbatim>\<open>bytes\<close>; only its length is ever inspected. Python integers are
  unbounded, so they are \<^typ>\<open>int\<close>. Strings are character lists.
\<close>

type_synonym byte = "8 word"

text \<open>
  \<^verbatim>\<open>str.lower()\<close>. The table covers the ASCII letters. A character outside ASCII is
  left as it is: Python would map some of them to other characters, but none of those
  images is one of the four characters of \<^verbatim>\<open>.pdf\<close>, the only thing the lowered
  string is compared with.
\<close>

definition lower_char :: "char \<Rightarrow> char" where
  "lower_char c =
     (case map_of (zip ''ABCDEFGHIJKLMNOPQRSTUVWXYZ'' ''abcdefghijklmnopqrstuvwxyz'') c of
        Some d \<Rightarrow> d
      | None \<Rightarrow> c)"

definition lower :: "string \<Rightarrow> string" where
  "lower s = map lower_char s"

text \<open>\<^verbatim>\<open>s.endswith(suf)\<close>\<close>

definition endswith :: "string \<Rightarrow> string \<Rightarrow> bool" where
  "endswith s suf = (length suf \<le> length s \<and> drop (length s - length suf) s = suf)"

text \<open>\<^verbatim>\<open>str(n)\<close> for an integer, as the f-strings of the validator use it.\<close>

fun str_nat :: "nat \<Rightarrow> string" where
  "str_nat n =
     (if n < 10 then [''0123456789'' ! n]
      else str_nat (n div 10) @ [''0123456789'' ! (n mod 10)])"

definition str_int :: "int \<Rightarrow> string" where
  "str_int i = (if i < 0 then CHR ''-'' # str_nat (nat (- i)) else str_nat (nat i))"


section \<open>Input validator (\<^verbatim>\<open>utils/file_validator.py\<close>)\<close>

text \<open>
  The part of FastAPI's \<^verbatim>\<open>UploadFile\<close> that the backend reads: the optional
  file name and the bytes that \<^verbatim>\<open>await file.read()\<close> returns.
\<close>

record UploadFile =
  filename :: "string option"
  body :: "byte list"

text \<open>
  The validator returns \<^verbatim>\<open>(is_valid, error_message)\<close>. The specification names
  the four failure reasons; each name stands for the message the code returns.
\<close>

definition MissingFilename :: string where
  "MissingFilename = ''filename is required''"

definition UnsupportedType :: string where
  "UnsupportedType = ''only pdf files are supported''"

definition EmptyFile :: string where
  "EmptyFile = ''file is empty''"

definition FileTooLarge :: "int \<Rightarrow> string" where
  "FileTooLarge max_size_mb = ''file size exceeds '' @ str_int max_size_mb @ ''mb limit''"

text \<open>
  \<^verbatim>\<open>FileValidator.validate_pdf\<close>. \<^verbatim>\<open>not file.filename\<close> holds for \<^verbatim>\<open>None\<close> and
  for the empty string. The size parameter is accepted and not used.
\<close>

definition validate_pdf :: "UploadFile \<Rightarrow> int \<Rightarrow> bool \<times> string" where
  "validate_pdf file max_size_mb =
     (case filename file of
        None \<Rightarrow> (False, ''filename is required'')
      | Some name \<Rightarrow>
          if name = [] then (False, ''filename is required'')
          else if \<not> endswith (lower name) ''.pdf'' then (False, ''only pdf files are supported'')
          else (True, []))"

text \<open>\<^verbatim>\<open>FileValidator.validate_file_size\<close>: the ceiling is tested before emptiness.\<close>

definition validate_file_size :: "byte list \<Rightarrow> int \<Rightarrow> bool \<times> string" where
  "validate_file_size content max_size_mb =
     (let max_size_bytes = max_size_mb * 1024 * 1024 in
      if int (length content) > max_size_bytes
        then (False, ''file size exceeds '' @ str_int max_size_mb @ ''mb limit'')
      else if length content = 0 then (False, ''file is empty'')
      else (True, []))"

text \<open>
  \<^verbatim>\<open>FileValidator.validate_file_id\<close>. The argument is typed as a string, so the
  \<^verbatim>\<open>isinstance\<close> test never fails.
\<close>

definition validate_file_id :: "string \<Rightarrow> bool \<times> string" where
  "validate_file_id file_id =
     (if file_id = [] then (False, ''file_id is required'')
      else if length file_id < 10 then (False, ''invalid file_id format'')
      else (True, []))"

text \<open>
  The specification's wording of the extension rule, independent of how the code tests
  it: the name ends in one of the eight spellings of \<^verbatim>\<open>.pdf\<close> that differ only in
  the case of their letters.
\<close>

definition pdf_extension_spellings :: "string list" where
  "pdf_extension_spellings =
     [[CHR ''.'', p, d, f]. p \<leftarrow> ''pP'', d \<leftarrow> ''dD'', f \<leftarrow> ''fF'']"

definition ends_in_pdf_extension :: "string \<Rightarrow> bool" where
  "ends_in_pdf_extension name = list_ex (\<lambda>e. suffix e name) pdf_extension_spellings"


section \<open>Python values and exceptions\<close>

text \<open>
  Values of the dictionaries the code builds (\<^verbatim>\<open>Dict[str, Any]\<close>) and passes to
  \<^verbatim>\<open>json.dumps\<close>. A dictionary is the list of its entries in insertion order.
\<close>

datatype pyval =
    PNone
  | PBool bool
  | PInt int
  | PStr string
  | PList "pyval list"
  | PDict "(string \<times> pyval) list"

text \<open>
  The exceptions that are raised or caught. \<open>SdkError\<close> is any failure of a provider
  call and \<open>OSError\<close> any failure of a local file operation, each with its message;
  \<open>ValidationError\<close> is what a response schema raises for a field it does not accept.
  \<open>Formatted what e\<close> is the detail \<^verbatim>\<open>f"{what}: {str(e)}"\<close> of an
  \<^verbatim>\<open>HTTPException\<close> built from a caught exception.
\<close>

datatype py_exc =
    AttributeError
  | IndexError
  | OSError string
  | ValueError string
  | ValidationError
  | SdkError string
  | HTTPException int detail
and detail =
    Detail string
  | Formatted string py_exc

text \<open>
  An attribute of a provider object that need not hold a value: the object may lack it
  (\<^verbatim>\<open>hasattr\<close> is false), or have it with the value \<^verbatim>\<open>None\<close>, or have it with
  a value of the attribute's type.
\<close>

datatype 'a attribute =
    Absent
  | PyNone
  | Value 'a

text \<open>
  \<^verbatim>\<open>getattr(obj, name, default)\<close>: the fallback replaces an absent attribute only.
  The result is a Python value that may be \<^verbatim>\<open>None\<close>.
\<close>

definition getattr :: "'a attribute \<Rightarrow> 'a \<Rightarrow> 'a option" where
  "getattr attribute fallback =
     (case attribute of Absent \<Rightarrow> Some fallback | PyNone \<Rightarrow> None | Value v \<Rightarrow> Some v)"

text \<open>The value of an attribute that is there, as an entry of a dictionary.\<close>

definition attribute_value :: "('a \<Rightarrow> pyval) \<Rightarrow> 'a attribute \<Rightarrow> pyval" where
  "attribute_value wrap attribute = (case attribute of Value v \<Rightarrow> wrap v | _ \<Rightarrow> PNone)"


section \<open>Provider objects and response schemas (\<^verbatim>\<open>schemas.py\<close>)\<close>

text \<open>
  A file object as the provider's SDK returns it. The attributes that the routes read
  with a fallback may be absent or \<^verbatim>\<open>None\<close>; the others always hold a value.
\<close>

record FileObject =
  fo_id :: string
  fo_object :: string
  fo_bytes :: "int attribute"
  fo_created_at :: int
  fo_filename :: string
  fo_purpose :: string
  fo_sample_type :: "string attribute"
  fo_num_lines :: "int attribute"
  fo_mimetype :: "string attribute"
  fo_source :: "string attribute"
  fo_signature :: "string attribute"
  fo_deleted :: "bool attribute"

record FileUploadResponse =
  up_id :: string
  up_object :: string
  up_bytes :: int
  up_created_at :: int
  up_filename :: string
  up_purpose :: string
  up_sample_type :: string
  up_num_lines :: int
  up_mimetype :: string
  up_source :: string
  up_signature :: string

record FileRetrieveResponse =
  rt_id :: string
  rt_object :: string
  rt_bytes :: int
  rt_created_at :: int
  rt_filename :: string
  rt_purpose :: string
  rt_sample_type :: string
  rt_num_lines :: int
  rt_mimetype :: string
  rt_source :: string
  rt_signature :: string
  rt_deleted :: bool

record FileListResponse =
  fl_files :: "FileRetrieveResponse list"
  fl_total :: int

record DeleteFileResponse =
  dl_id :: string
  dl_deleted :: bool
  dl_message :: string

text \<open>The provider's list of files: \<^verbatim>\<open>files.data\<close> may be absent.\<close>

record FileListObject =
  fl_data :: "FileObject list option"

record SignedUrlObject =
  su_url :: string

text \<open>A page of the provider's OCR response; the image attribute may be absent.\<close>

record OCRPageObject =
  pg_index :: int
  pg_markdown :: string
  pg_image_base64 :: "string option"

record OCRResponseObject =
  ocr_pages :: "OCRPageObject list"

record OCRPage =
  op_index :: int
  op_markdown :: string
  op_image_base64 :: "string option"

record OCRQueryRequest =
  oq_file_id :: string
  oq_include_image_base64 :: bool

text \<open>
  A chat completion: each choice is read only through \<^verbatim>\<open>.message.content\<close>; the
  usage object may be absent.
\<close>

record Choice =
  message_content :: string

record Usage =
  prompt_tokens :: int
  completion_tokens :: int
  total_tokens :: int

record ChatResponse =
  ch_choices :: "Choice list"
  ch_model :: string
  ch_usage :: "Usage option"

text \<open>
  An increment of a streamed completion: \<^verbatim>\<open>chunk.data.choices\<close>, each choice read
  only through \<^verbatim>\<open>.delta.content\<close>, which may be absent.
\<close>

record StreamChoice =
  delta_content :: "string option"

record Chunk =
  data_choices :: "StreamChoice list"

record DocumentQARequest =
  qa_file_id :: string
  qa_question :: string
  qa_model :: string
  qa_conversation_history :: "pyval list option"

record DocumentQAResponse =
  qr_answer :: string
  qr_model :: string
  qr_usage :: "(string \<times> int) list"
  qr_file_id :: string
  qr_question :: string

record ConversationMessage =
  msg_role :: string
  msg_content :: string

record DocumentConversationRequest =
  cv_file_id :: string
  cv_messages :: "ConversationMessage list"
  cv_model :: string

record DocumentConversationResponse =
  cr_answer :: string
  cr_model :: string
  cr_usage :: "(string \<times> int) list"
  cr_file_id :: string
  cr_conversation_length :: int


section \<open>Response mapper (\<^verbatim>\<open>utils/response_formatter.py\<close>)\<close>

text \<open>
  \<^verbatim>\<open>ResponseFormatter.format_file_metadata\<close>. Every attribute is read directly, so
  an absent one raises \<^verbatim>\<open>AttributeError\<close>; only \<^verbatim>\<open>deleted\<close> is read with a
  fallback.
\<close>

definition format_file_metadata :: "FileObject \<Rightarrow> py_exc + (string \<times> pyval) list" where
  "format_file_metadata file_obj =
     (if fo_bytes file_obj = Absent \<or> fo_sample_type file_obj = Absent \<or>
         fo_num_lines file_obj = Absent \<or> fo_mimetype file_obj = Absent \<or>
         fo_source file_obj = Absent \<or> fo_signature file_obj = Absent
        then Inl AttributeError
      else
        Inr [(''id'', PStr (fo_id file_obj)),
             (''object'', PStr (fo_object file_obj)),
             (''bytes'', attribute_value PInt (fo_bytes file_obj)),
             (''created_at'', PInt (fo_created_at file_obj)),
             (''filename'', PStr (fo_filename file_obj)),
             (''purpose'', PStr (fo_purpose file_obj)),
             (''sample_type'', attribute_value PStr (fo_sample_type file_obj)),
             (''num_lines'', attribute_value PInt (fo_num_lines file_obj)),
             (''mimetype'', attribute_value PStr (fo_mimetype file_obj)),
             (''source'', attribute_value PStr (fo_source file_obj)),
             (''signature'', attribute_value PStr (fo_signature file_obj)),
             (''deleted'',
              (case getattr (fo_deleted file_obj) False of
                 Some deleted \<Rightarrow> PBool deleted
               | None \<Rightarrow> PNone))])"

text \<open>
  \<^verbatim>\<open>ResponseFormatter.format_ocr_pages\<close>: the loop appends one dictionary per page;
  the image entry is added when the page has the attribute and its value is not empty.
\<close>

fun format_ocr_pages_loop ::
  "(string \<times> pyval) list list \<Rightarrow> OCRPageObject list \<Rightarrow> (string \<times> pyval) list list" where
  "format_ocr_pages_loop formatted_pages [] = formatted_pages"
| "format_ocr_pages_loop formatted_pages (page # pages) =
     (let formatted_page =
            [(''index'', PInt (pg_index page)), (''markdown'', PStr (pg_markdown page))];
          formatted_page =
            (case pg_image_base64 page of
               Some image_base64 \<Rightarrow>
                 if image_base64 \<noteq> []
                   then formatted_page @ [(''image_base64'', PStr image_base64)]
                 else formatted_page
             | None \<Rightarrow> formatted_page)
      in format_ocr_pages_loop (formatted_pages @ [formatted_page]) pages)"

definition format_ocr_pages :: "OCRPageObject list \<Rightarrow> (string \<times> pyval) list list" where
  "format_ocr_pages pages = format_ocr_pages_loop [] pages"

text \<open>
  \<^verbatim>\<open>ResponseFormatter.format_qa_response\<close>. The dictionary's entries are evaluated in
  order: \<^verbatim>\<open>choices[0]\<close> raises \<^verbatim>\<open>IndexError\<close> on an empty list, and reading a
  counter of an absent usage object raises \<^verbatim>\<open>AttributeError\<close>.
\<close>

definition format_qa_response ::
  "ChatResponse \<Rightarrow> string \<Rightarrow> string \<Rightarrow> py_exc + (string \<times> pyval) list" where
  "format_qa_response chat_response file_id question =
     (case ch_choices chat_response of
        [] \<Rightarrow> Inl IndexError
      | choice # _ \<Rightarrow>
          (case ch_usage chat_response of
             None \<Rightarrow> Inl AttributeError
           | Some usage \<Rightarrow>
               Inr [(''answer'', PStr (message_content choice)),
                    (''model'', PStr (ch_model chat_response)),
                    (''usage'', PDict [(''prompt_tokens'', PInt (prompt_tokens usage)),
                                       (''completion_tokens'', PInt (completion_tokens usage)),
                                       (''total_tokens'', PInt (total_tokens usage))]),
                    (''file_id'', PStr file_id),
                    (''question'', PStr question)]))"


section \<open>Provider client adapter (\<^verbatim>\<open>services/mistral_service.py\<close>)\<close>

text \<open>
  The provider's SDK client is the environment of the program: one function per
  operation, each returning the provider's object or raising. The file handle passed
  to an upload is the sequence of bytes read from it.
\<close>

record Client =
  files_upload :: "string \<Rightarrow> byte list \<Rightarrow> string \<Rightarrow> py_exc + FileObject"
  files_retrieve :: "string \<Rightarrow> py_exc + FileObject"
  files_get_signed_url :: "string \<Rightarrow> int option \<Rightarrow> py_exc + SignedUrlObject"
  files_list :: "py_exc + FileListObject"
  files_delete :: "string \<Rightarrow> py_exc + unit"
  ocr_process :: "string \<Rightarrow> string \<Rightarrow> bool \<Rightarrow> py_exc + OCRResponseObject"
  chat_complete :: "string \<Rightarrow> pyval list \<Rightarrow> py_exc + ChatResponse"
  chat_stream :: "string \<Rightarrow> pyval list \<Rightarrow> py_exc + Chunk list"

text \<open>
  A provider operation as it was invoked, with its arguments. Every method of the
  adapter returns its result together with the operations it invoked, in order.
  \<open>FilesGetSignedUrl file_id None\<close> is the call without the \<^verbatim>\<open>expiry\<close> argument.
\<close>

datatype call =
    FilesUpload string "byte list" string
  | FilesRetrieve string
  | FilesGetSignedUrl string "int option"
  | FilesList
  | FilesDelete string
  | OcrProcess string string bool
  | ChatComplete string "pyval list"
  | ChatStream string "pyval list"

record MistralService =
  api_key :: string
  client :: Client

text \<open>
  \<^verbatim>\<open>MistralService.__init__\<close>. \<open>Mistral\<close> is the SDK's constructor and
  \<open>environ_key\<close> the value of the environment variable \<^verbatim>\<open>MISTRAL_API_KEY\<close>.
  \<^verbatim>\<open>api_key or os.environ.get(...)\<close> takes the variable when the argument is
  \<^verbatim>\<open>None\<close> or empty.
\<close>

definition MistralService_init ::
  "(string \<Rightarrow> Client) \<Rightarrow> string option \<Rightarrow> string option \<Rightarrow> py_exc + MistralService" where
  "MistralService_init Mistral environ_key key_argument =
     (let key = (case key_argument of
                   Some k \<Rightarrow> if k \<noteq> [] then Some k else environ_key
                 | None \<Rightarrow> environ_key)
      in case key of
           None \<Rightarrow> Inl (ValueError ''mistral_api_key not found in environment variables'')
         | Some k \<Rightarrow>
             if k = [] then Inl (ValueError ''mistral_api_key not found in environment variables'')
             else Inr \<lparr>api_key = k, client = Mistral k\<rparr>)"

text \<open>\<^verbatim>\<open>upload_file\<close>: the handle is rewound, so the whole content is sent.\<close>

definition MistralService_upload_file ::
  "MistralService \<Rightarrow> byte list \<Rightarrow> string \<Rightarrow> (py_exc + FileObject) \<times> call list" where
  "MistralService_upload_file service file_content file_name =
     (files_upload (client service) file_name file_content ''ocr'',
      [FilesUpload file_name file_content ''ocr''])"

definition MistralService_retrieve_file ::
  "MistralService \<Rightarrow> string \<Rightarrow> (py_exc + FileObject) \<times> call list" where
  "MistralService_retrieve_file service file_id =
     (files_retrieve (client service) file_id, [FilesRetrieve file_id])"

text \<open>
  \<^verbatim>\<open>get_signed_url\<close>. \<^verbatim>\<open>if expiry_hours:\<close> is false for \<^verbatim>\<open>None\<close> and for 0.
\<close>

definition MistralService_get_signed_url ::
  "MistralService \<Rightarrow> string \<Rightarrow> int option \<Rightarrow> (py_exc + SignedUrlObject) \<times> call list" where
  "MistralService_get_signed_url service file_id expiry_hours =
     (case expiry_hours of
        Some hours \<Rightarrow>
          if hours \<noteq> 0
            then (files_get_signed_url (client service) file_id (Some hours),
                  [FilesGetSignedUrl file_id (Some hours)])
          else (files_get_signed_url (client service) file_id None,
                [FilesGetSignedUrl file_id None])
      | None \<Rightarrow>
          (files_get_signed_url (client service) file_id None,
           [FilesGetSignedUrl file_id None]))"

definition MistralService_list_files ::
  "MistralService \<Rightarrow> (py_exc + FileListObject) \<times> call list" where
  "MistralService_list_files service = (files_list (client service), [FilesList])"

definition MistralService_delete_file ::
  "MistralService \<Rightarrow> string \<Rightarrow> (py_exc + unit) \<times> call list" where
  "MistralService_delete_file service file_id =
     (files_delete (client service) file_id, [FilesDelete file_id])"

definition MistralService_process_ocr ::
  "MistralService \<Rightarrow> string \<Rightarrow> bool \<Rightarrow> (py_exc + OCRResponseObject) \<times> call list" where
  "MistralService_process_ocr service document_url include_image_base64 =
     (ocr_process (client service) ''mistral-ocr-latest'' document_url include_image_base64,
      [OcrProcess ''mistral-ocr-latest'' document_url include_image_base64])"

text \<open>
  The message list of a document question: the history, when it is given and not
  empty, then the new user turn with the question and the document's signed URL.
\<close>

definition build_messages :: "pyval list option \<Rightarrow> string \<Rightarrow> string \<Rightarrow> pyval list" where
  "build_messages conversation_history question document_url =
     (case conversation_history of
        Some history \<Rightarrow> if history \<noteq> [] then history else []
      | None \<Rightarrow> [])
     @ [PDict [(''role'', PStr ''user''),
               (''content'',
                PList [PDict [(''type'', PStr ''text''), (''text'', PStr question)],
                       PDict [(''type'', PStr ''document_url''),
                              (''document_url'', PStr document_url)]])]]"

definition MistralService_query_document ::
  "MistralService \<Rightarrow> string \<Rightarrow> string \<Rightarrow> string \<Rightarrow> pyval list option
     \<Rightarrow> (py_exc + ChatResponse) \<times> call list" where
  "MistralService_query_document service file_id question model conversation_history =
     (case MistralService_get_signed_url service file_id None of
        (Inl e, calls) \<Rightarrow> (Inl e, calls)
      | (Inr signed_url, calls) \<Rightarrow>
          let messages = build_messages conversation_history question (su_url signed_url)
          in (chat_complete (client service) model messages,
              calls @ [ChatComplete model messages]))"

definition MistralService_query_document_streaming ::
  "MistralService \<Rightarrow> string \<Rightarrow> string \<Rightarrow> string \<Rightarrow> pyval list option
     \<Rightarrow> (py_exc + Chunk list) \<times> call list" where
  "MistralService_query_document_streaming service file_id question model conversation_history =
     (case MistralService_get_signed_url service file_id None of
        (Inl e, calls) \<Rightarrow> (Inl e, calls)
      | (Inr signed_url, calls) \<Rightarrow>
          let messages = build_messages conversation_history question (su_url signed_url)
          in (chat_stream (client service) model messages,
              calls @ [ChatStream model messages]))"


section \<open>Routes (\<^verbatim>\<open>main.py\<close>)\<close>

text \<open>
  The module-level adapter: \<^verbatim>\<open>None\<close> when its construction raised
  \<^verbatim>\<open>ValueError\<close>. It is assigned once, when the module is loaded, and no route
  assigns it again. The constructor raises nothing but \<^verbatim>\<open>ValueError\<close>.
\<close>

definition mistral_service :: "(string \<Rightarrow> Client) \<Rightarrow> string option \<Rightarrow> MistralService option" where
  "mistral_service Mistral environ_key =
     (case MistralService_init Mistral environ_key None of
        Inr service \<Rightarrow> Some service
      | Inl e \<Rightarrow> None)"

text \<open>
  The two shapes of the routes' handlers:
  \<^verbatim>\<open>except Exception as e: raise HTTPException(status, f"{what}: {str(e)}")\<close>, alone
  or after \<^verbatim>\<open>except HTTPException: raise\<close>.
\<close>

definition except_Exception :: "int \<Rightarrow> string \<Rightarrow> py_exc \<Rightarrow> py_exc" where
  "except_Exception status what e = HTTPException status (Formatted what e)"

definition except_HTTPException_raise :: "int \<Rightarrow> string \<Rightarrow> py_exc \<Rightarrow> py_exc" where
  "except_HTTPException_raise status what e =
     (case e of
        HTTPException s d \<Rightarrow> HTTPException s d
      | _ \<Rightarrow> HTTPException status (Formatted what e))"

text \<open>\<^verbatim>\<open>for x in xs: acc.append(f(x))\<close>\<close>

fun for_append :: "('a \<Rightarrow> 'b) \<Rightarrow> 'b list \<Rightarrow> 'a list \<Rightarrow> 'b list" where
  "for_append f acc [] = acc"
| "for_append f acc (x # xs) = for_append f (acc @ [f x]) xs"

text \<open>
  The mapping of \<^verbatim>\<open>upload_document\<close> (lines 130 to 142). No field of
  \<^verbatim>\<open>FileUploadResponse\<close> is optional, so the schema raises when a value it is given
  is \<^verbatim>\<open>None\<close>.
\<close>

definition upload_response :: "FileObject \<Rightarrow> byte list \<Rightarrow> py_exc + FileUploadResponse" where
  "upload_response uploaded content =
     (case (getattr (fo_bytes uploaded) (int (length content)),
            getattr (fo_sample_type uploaded) ''ocr_input'',
            getattr (fo_num_lines uploaded) 0,
            getattr (fo_mimetype uploaded) ''application/pdf'',
            getattr (fo_source uploaded) ''upload'',
            getattr (fo_signature uploaded) []) of
        (Some bytes, Some sample_type, Some num_lines, Some mimetype, Some source, Some signature) \<Rightarrow>
          Inr \<lparr>up_id = fo_id uploaded,
               up_object = fo_object uploaded,
               up_bytes = bytes,
               up_created_at = fo_created_at uploaded,
               up_filename = fo_filename uploaded,
               up_purpose = fo_purpose uploaded,
               up_sample_type = sample_type,
               up_num_lines = num_lines,
               up_mimetype = mimetype,
               up_source = source,
               up_signature = signature\<rparr>
      | _ \<Rightarrow> Inl ValidationError)"

text \<open>
  The mapping of \<^verbatim>\<open>retrieve_document\<close> (lines 207 to 220), which
  \<^verbatim>\<open>list_documents\<close> applies to every listed file (lines 170 to 183).
\<close>

definition retrieve_response :: "FileObject \<Rightarrow> py_exc + FileRetrieveResponse" where
  "retrieve_response retrieved =
     (case (getattr (fo_bytes retrieved) 0,
            getattr (fo_sample_type retrieved) ''ocr_input'',
            getattr (fo_num_lines retrieved) 0,
            getattr (fo_mimetype retrieved) ''application/pdf'',
            getattr (fo_source retrieved) ''upload'',
            getattr (fo_signature retrieved) [],
            getattr (fo_deleted retrieved) False) of
        (Some bytes, Some sample_type, Some num_lines, Some mimetype, Some source, Some signature,
         Some deleted) \<Rightarrow>
          Inr \<lparr>rt_id = fo_id retrieved,
               rt_object = fo_object retrieved,
               rt_bytes = bytes,
               rt_created_at = fo_created_at retrieved,
               rt_filename = fo_filename retrieved,
               rt_purpose = fo_purpose retrieved,
               rt_sample_type = sample_type,
               rt_num_lines = num_lines,
               rt_mimetype = mimetype,
               rt_source = source,
               rt_signature = signature,
               rt_deleted = deleted\<rparr>
      | _ \<Rightarrow> Inl ValidationError)"

text \<open>
  The local side of an upload: the name \<^verbatim>\<open>NamedTemporaryFile\<close> chooses, and what
  each operation on the temporary file does in this call. \<open>Some e\<close> is an operation
  that raises \<open>e\<close>: creating the file (no file is made), writing the content (the file
  was opened with \<^verbatim>\<open>delete=False\<close>, so it stays, holding the \<open>written\<close> first
  bytes), reopening it for reading, and unlinking it (the file stays).
\<close>

record TempFiles =
  tmp_file_path :: string
  create_error :: "py_exc option"
  write_error :: "py_exc option"
  written :: nat
  open_error :: "py_exc option"
  unlink_error :: "py_exc option"

text \<open>
  \<^verbatim>\<open>upload_document\<close>. The local file system is a map from paths to contents. The
  temporary file is created and written inside the outer \<^verbatim>\<open>try\<close> (lines 116 to 118);
  only the reopening and the provider call are inside the inner \<^verbatim>\<open>try\<close> whose
  \<^verbatim>\<open>finally\<close> unlinks the file (lines 120 to 127). An exception raised in the
  \<^verbatim>\<open>finally\<close> replaces the one in flight. The result is the response or the
  exception, the provider operations invoked, and the file system the call leaves behind.
\<close>

definition upload_document ::
  "MistralService option \<Rightarrow> int \<Rightarrow> TempFiles \<Rightarrow> (string \<rightharpoonup> byte list) \<Rightarrow> UploadFile
     \<Rightarrow> (py_exc + FileUploadResponse) \<times> call list \<times> (string \<rightharpoonup> byte list)" where
  "upload_document service_opt max_file_size_mb local fs file =
     (case service_opt of
        None \<Rightarrow> (Inl (HTTPException 500 (Detail ''mistral service not initialized'')), [], fs)
      | Some service \<Rightarrow>
          let (is_valid, error_msg) = validate_pdf file max_file_size_mb in
          if \<not> is_valid then (Inl (HTTPException 400 (Detail error_msg)), [], fs)
          else
            let content = body file;
                (is_valid, error_msg) = validate_file_size content max_file_size_mb
            in
            if \<not> is_valid then (Inl (HTTPException 400 (Detail error_msg)), [], fs)
            else
              (case create_error local of
                 Some e \<Rightarrow>
                   (Inl (except_HTTPException_raise 500 ''failed to upload file'' e), [], fs)
               | None \<Rightarrow>
                   (case write_error local of
                      Some e \<Rightarrow>
                        (Inl (except_HTTPException_raise 500 ''failed to upload file'' e), [],
                         fs(tmp_file_path local \<mapsto> take (written local) content))
                    | None \<Rightarrow>
                        let fs_staged = fs(tmp_file_path local \<mapsto> content);
                            (uploaded, calls) =
                              (case open_error local of
                                 Some e \<Rightarrow> (Inl e, [])
                               | None \<Rightarrow>
                                   (case fs_staged (tmp_file_path local) of
                                      None \<Rightarrow> (Inl (OSError ''No such file or directory''), [])
                                    | Some f \<Rightarrow>
                                        MistralService_upload_file service f
                                          (case filename file of Some name \<Rightarrow> name | None \<Rightarrow> [])));
                            (unlinked, fs_final) =
                              (if fs_staged (tmp_file_path local) \<noteq> None then
                                 (case unlink_error local of
                                    Some e \<Rightarrow> (Inl e, fs_staged)
                                  | None \<Rightarrow> (Inr (), fs_staged(tmp_file_path local := None)))
                               else (Inr (), fs_staged))
                        in
                        (case unlinked of
                           Inl e \<Rightarrow>
                             (Inl (except_HTTPException_raise 500 ''failed to upload file'' e),
                              calls, fs_final)
                         | Inr _ \<Rightarrow>
                             (case uploaded of
                                Inl e \<Rightarrow>
                                  (Inl (except_HTTPException_raise 500 ''failed to upload file'' e),
                                   calls, fs_final)
                              | Inr uploaded \<Rightarrow>
                                  (case upload_response uploaded content of
                                     Inl e \<Rightarrow>
                                       (Inl (except_HTTPException_raise 500
                                               ''failed to upload file'' e),
                                        calls, fs_final)
                                   | Inr response \<Rightarrow> (Inr response, calls, fs_final)))))))"

text \<open>The loop of \<^verbatim>\<open>list_documents\<close>: a file the schema refuses ends it.\<close>

fun list_documents_loop ::
  "FileRetrieveResponse list \<Rightarrow> FileObject list \<Rightarrow> py_exc + FileRetrieveResponse list" where
  "list_documents_loop file_list [] = Inr file_list"
| "list_documents_loop file_list (f # files) =
     (case retrieve_response f of
        Inl e \<Rightarrow> Inl e
      | Inr response \<Rightarrow> list_documents_loop (file_list @ [response]) files)"

definition list_documents ::
  "MistralService option \<Rightarrow> (py_exc + FileListResponse) \<times> call list" where
  "list_documents service_opt =
     (case service_opt of
        None \<Rightarrow> (Inl (HTTPException 500 (Detail ''mistral service not initialized'')), [])
      | Some service \<Rightarrow>
          (case MistralService_list_files service of
             (Inl e, calls) \<Rightarrow> (Inl (except_Exception 500 ''failed to list files'' e), calls)
           | (Inr files, calls) \<Rightarrow>
               (case (case fl_data files of
                        Some data \<Rightarrow> list_documents_loop [] data
                      | None \<Rightarrow> Inr []) of
                  Inl e \<Rightarrow> (Inl (except_Exception 500 ''failed to list files'' e), calls)
                | Inr file_list \<Rightarrow>
                    (Inr \<lparr>fl_files = file_list, fl_total = int (length file_list)\<rparr>, calls))))"

definition retrieve_document ::
  "MistralService option \<Rightarrow> string \<Rightarrow> (py_exc + FileRetrieveResponse) \<times> call list" where
  "retrieve_document service_opt file_id =
     (case service_opt of
        None \<Rightarrow> (Inl (HTTPException 500 (Detail ''mistral service not initialized'')), [])
      | Some service \<Rightarrow>
          (case MistralService_retrieve_file service file_id of
             (Inl e, calls) \<Rightarrow> (Inl (except_Exception 404 ''file not found'' e), calls)
           | (Inr retrieved, calls) \<Rightarrow>
               (case retrieve_response retrieved of
                  Inl e \<Rightarrow> (Inl (except_Exception 404 ''file not found'' e), calls)
                | Inr response \<Rightarrow> (Inr response, calls))))"

definition delete_document ::
  "MistralService option \<Rightarrow> string \<Rightarrow> (py_exc + DeleteFileResponse) \<times> call list" where
  "delete_document service_opt file_id =
     (case service_opt of
        None \<Rightarrow> (Inl (HTTPException 500 (Detail ''mistral service not initialized'')), [])
      | Some service \<Rightarrow>
          (case MistralService_delete_file service file_id of
             (Inl e, calls) \<Rightarrow> (Inl (except_Exception 500 ''failed to delete file'' e), calls)
           | (Inr response, calls) \<Rightarrow>
               (Inr \<lparr>dl_id = file_id, dl_deleted = True,
                     dl_message = ''file '' @ file_id @ '' deleted successfully''\<rparr>, calls)))"

definition get_signed_url ::
  "MistralService option \<Rightarrow> string \<Rightarrow> int option \<Rightarrow> (py_exc + string) \<times> call list" where
  "get_signed_url service_opt file_id expiry_hours =
     (case service_opt of
        None \<Rightarrow> (Inl (HTTPException 500 (Detail ''mistral service not initialized'')), [])
      | Some service \<Rightarrow>
          (case MistralService_get_signed_url service file_id expiry_hours of
             (Inl e, calls) \<Rightarrow> (Inl (except_Exception 500 ''failed to get signed url'' e), calls)
           | (Inr signed_url, calls) \<Rightarrow> (Inr (su_url signed_url), calls)))"

text \<open>
  \<^verbatim>\<open>query_ocr\<close>. The page record always has its image field:
  \<^verbatim>\<open>getattr(page, 'image_base64', None)\<close> is the page's value when it has one and
  \<^verbatim>\<open>None\<close> otherwise.
\<close>

definition query_ocr ::
  "MistralService option \<Rightarrow> OCRQueryRequest \<Rightarrow> (py_exc + OCRPage list) \<times> call list" where
  "query_ocr service_opt request =
     (case service_opt of
        None \<Rightarrow> (Inl (HTTPException 500 (Detail ''mistral service not initialized'')), [])
      | Some service \<Rightarrow>
          (case MistralService_get_signed_url service (oq_file_id request) None of
             (Inl e, calls) \<Rightarrow> (Inl (except_Exception 500 ''failed to process ocr'' e), calls)
           | (Inr signed_url, calls) \<Rightarrow>
               (case MistralService_process_ocr service (su_url signed_url)
                       (oq_include_image_base64 request) of
                  (Inl e, calls') \<Rightarrow>
                    (Inl (except_Exception 500 ''failed to process ocr'' e), calls @ calls')
                | (Inr ocr_response, calls') \<Rightarrow>
                    (Inr (for_append
                            (\<lambda>page. \<lparr>op_index = pg_index page,
                                      op_markdown = pg_markdown page,
                                      op_image_base64 =
                                        (case pg_image_base64 page of
                                           Some image_base64 \<Rightarrow> Some image_base64
                                         | None \<Rightarrow> None)\<rparr>)
                            [] (ocr_pages ocr_response)),
                     calls @ calls'))))"

text \<open>
  The answer and the usage counters of a chat completion, as \<^verbatim>\<open>query_document\<close>
  (lines 343 to 352) and \<^verbatim>\<open>query_document_conversation\<close> (lines 417 to 426) read
  them: \<^verbatim>\<open>choices[0]\<close> first, then the three counters.
\<close>

definition answer_and_usage :: "ChatResponse \<Rightarrow> py_exc + string \<times> (string \<times> int) list" where
  "answer_and_usage chat_response =
     (case ch_choices chat_response of
        [] \<Rightarrow> Inl IndexError
      | choice # _ \<Rightarrow>
          (case ch_usage chat_response of
             None \<Rightarrow> Inl AttributeError
           | Some usage \<Rightarrow>
               Inr (message_content choice,
                    [(''prompt_tokens'', prompt_tokens usage),
                     (''completion_tokens'', completion_tokens usage),
                     (''total_tokens'', total_tokens usage)])))"

definition query_document ::
  "MistralService option \<Rightarrow> DocumentQARequest \<Rightarrow> (py_exc + DocumentQAResponse) \<times> call list" where
  "query_document service_opt request =
     (case service_opt of
        None \<Rightarrow> (Inl (HTTPException 500 (Detail ''mistral service not initialized'')), [])
      | Some service \<Rightarrow>
          (case MistralService_query_document service (qa_file_id request) (qa_question request)
                  (qa_model request) (qa_conversation_history request) of
             (Inl e, calls) \<Rightarrow> (Inl (except_Exception 500 ''failed to query document'' e), calls)
           | (Inr chat_response, calls) \<Rightarrow>
               (case answer_and_usage chat_response of
                  Inl e \<Rightarrow> (Inl (except_Exception 500 ''failed to query document'' e), calls)
                | Inr (answer, usage) \<Rightarrow>
                    (Inr \<lparr>qr_answer = answer,
                          qr_model = ch_model chat_response,
                          qr_usage = usage,
                          qr_file_id = qa_file_id request,
                          qr_question = qa_question request\<rparr>, calls))))"

text \<open>
  The derivation of the question and the history from the messages of a conversation
  request (lines 376 to 406, and again lines 495 to 525). The loop runs over
  \<^verbatim>\<open>messages[:-1]\<close> and keeps the turns whose role is \<^verbatim>\<open>user\<close> or
  \<^verbatim>\<open>assistant\<close>.
\<close>

fun conversation_history_loop :: "pyval list \<Rightarrow> ConversationMessage list \<Rightarrow> pyval list" where
  "conversation_history_loop conversation_history [] = conversation_history"
| "conversation_history_loop conversation_history (msg # msgs) =
     (if msg_role msg = ''user''
        then conversation_history_loop
               (conversation_history
                  @ [PDict [(''role'', PStr ''user''), (''content'', PStr (msg_content msg))]])
               msgs
      else if msg_role msg = ''assistant''
        then conversation_history_loop
               (conversation_history
                  @ [PDict [(''role'', PStr ''assistant''), (''content'', PStr (msg_content msg))]])
               msgs
      else conversation_history_loop conversation_history msgs)"

definition derive_conversation ::
  "ConversationMessage list \<Rightarrow> py_exc + string \<times> pyval list" where
  "derive_conversation messages =
     (let conversation_history = conversation_history_loop [] (butlast messages);
          last_user_message =
            (if messages \<noteq> [] then
               (if msg_role (last messages) = ''user''
                  then Inr (Some (msg_content (last messages)))
                else Inl (HTTPException 400 (Detail ''last message must be from user'')))
             else Inr None)
      in case last_user_message of
           Inl e \<Rightarrow> Inl e
         | Inr None \<Rightarrow> Inl (HTTPException 400 (Detail ''no user message found''))
         | Inr (Some question) \<Rightarrow>
             if question = [] then Inl (HTTPException 400 (Detail ''no user message found''))
             else Inr (question, conversation_history))"

definition query_document_conversation ::
  "MistralService option \<Rightarrow> DocumentConversationRequest
     \<Rightarrow> (py_exc + DocumentConversationResponse) \<times> call list" where
  "query_document_conversation service_opt request =
     (case service_opt of
        None \<Rightarrow> (Inl (HTTPException 500 (Detail ''mistral service not initialized'')), [])
      | Some service \<Rightarrow>
          (case derive_conversation (cv_messages request) of
             Inl e \<Rightarrow> (Inl (except_HTTPException_raise 500 ''failed to query document'' e), [])
           | Inr (last_user_message, conversation_history) \<Rightarrow>
               (case MistralService_query_document service (cv_file_id request) last_user_message
                       (cv_model request)
                       (if conversation_history \<noteq> [] then Some conversation_history else None) of
                  (Inl e, calls) \<Rightarrow>
                    (Inl (except_HTTPException_raise 500 ''failed to query document'' e), calls)
                | (Inr chat_response, calls) \<Rightarrow>
                    (case answer_and_usage chat_response of
                       Inl e \<Rightarrow>
                         (Inl (except_HTTPException_raise 500 ''failed to query document'' e), calls)
                     | Inr (answer, usage) \<Rightarrow>
                         (Inr \<lparr>cr_answer = answer,
                               cr_model = ch_model chat_response,
                               cr_usage = usage,
                               cr_file_id = cv_file_id request,
                               cr_conversation_length = int (length (cv_messages request))\<rparr>,
                          calls)))))"

text \<open>
  The generator \<^verbatim>\<open>generate\<close> of the two streaming routes. What it yields is the list
  of the payloads passed to \<^verbatim>\<open>json.dumps\<close>, each sent as one frame
  \<^verbatim>\<open>data: <json>\n\n\<close>. The upstream stream is the finite list of its increments.
\<close>

fun generate :: "Chunk list \<Rightarrow> pyval list" where
  "generate [] = [PDict [(''done'', PBool True)]]"
| "generate (chunk # stream) =
     (case data_choices chunk of
        [] \<Rightarrow> generate stream
      | choice # _ \<Rightarrow>
          (case delta_content choice of
             None \<Rightarrow> generate stream
           | Some text \<Rightarrow>
               if text \<noteq> [] then PDict [(''content'', PStr text)] # generate stream
               else generate stream))"

definition query_document_stream ::
  "MistralService option \<Rightarrow> DocumentQARequest \<Rightarrow> (py_exc + pyval list) \<times> call list" where
  "query_document_stream service_opt request =
     (case service_opt of
        None \<Rightarrow> (Inl (HTTPException 500 (Detail ''mistral service not initialized'')), [])
      | Some service \<Rightarrow>
          (case MistralService_query_document_streaming service (qa_file_id request)
                  (qa_question request) (qa_model request) (qa_conversation_history request) of
             (Inl e, calls) \<Rightarrow> (Inl (except_Exception 500 ''failed to stream query'' e), calls)
           | (Inr stream, calls) \<Rightarrow> (Inr (generate stream), calls)))"

text \<open>
  \<^verbatim>\<open>query_document_conversation_stream\<close>: this route has no
  \<^verbatim>\<open>except HTTPException: raise\<close>, and it passes the history as it is, empty or not.
\<close>

definition query_document_conversation_stream ::
  "MistralService option \<Rightarrow> DocumentConversationRequest \<Rightarrow> (py_exc + pyval list) \<times> call list" where
  "query_document_conversation_stream service_opt request =
     (case service_opt of
        None \<Rightarrow> (Inl (HTTPException 500 (Detail ''mistral service not initialized'')), [])
      | Some service \<Rightarrow>
          (case derive_conversation (cv_messages request) of
             Inl e \<Rightarrow> (Inl (except_Exception 500 ''failed to stream query'' e), [])
           | Inr (last_user_message, conversation_history) \<Rightarrow>
               (case MistralService_query_document_streaming service (cv_file_id request)
                       last_user_message (cv_model request) (Some conversation_history) of
                  (Inl e, calls) \<Rightarrow> (Inl (except_Exception 500 ''failed to stream query'' e), calls)
                | (Inr stream, calls) \<Rightarrow> (Inr (generate stream), calls))))"

definition root :: pyval where
  "root =
     PDict [(''message'', PStr ''mistral ocr and q&a rag engine api''),
            (''version'', PStr ''1.0.0''),
            (''endpoints'',
             PDict [(''documents'',
                     PDict [(''upload'', PStr ''/documents/upload''),
                            (''list'', PStr ''/documents/''),
                            (''retrieve'', PStr ''/documents/{file_id}''),
                            (''delete'', PStr ''/documents/{file_id}''),
                            (''signed_url'', PStr ''/documents/{file_id}/signed-url'')]),
                    (''ocr'', PDict [(''process'', PStr ''/ocr/query'')]),
                    (''qa'',
                     PDict [(''query'', PStr ''/qa/query''),
                            (''conversation'', PStr ''/qa/conversation''),
                            (''stream'', PStr ''/qa/stream'')])])]"

definition health_check :: "MistralService option \<Rightarrow> pyval" where
  "health_check service_opt =
     PDict [(''status'', PStr ''healthy''),
            (''mistral_service_initialized'',
             PBool (case service_opt of None \<Rightarrow> False | Some service \<Rightarrow> True))]"

text \<open>
  The HTTP surface: every inbound call is one of these requests, and the framework
  hands it to the route of its path.
\<close>

datatype request =
    Root
  | UploadDocument UploadFile
  | ListDocuments
  | RetrieveDocument string
  | DeleteDocument string
  | GetSignedUrl string "int option"
  | QueryOcr OCRQueryRequest
  | QueryDocument DocumentQARequest
  | QueryDocumentConversation DocumentConversationRequest
  | QueryDocumentStream DocumentQARequest
  | QueryDocumentConversationStream DocumentConversationRequest
  | HealthCheck

datatype response =
    JsonBody pyval
  | UploadBody FileUploadResponse
  | ListBody FileListResponse
  | RetrieveBody FileRetrieveResponse
  | DeleteBody DeleteFileResponse
  | SignedUrlBody string
  | OcrBody "OCRPage list"
  | QaBody DocumentQAResponse
  | ConversationBody DocumentConversationResponse
  | EventStream "pyval list"

definition respond ::
  "('a \<Rightarrow> response) \<Rightarrow> (string \<rightharpoonup> byte list) \<Rightarrow> (py_exc + 'a) \<times> call list
     \<Rightarrow> (py_exc + response) \<times> call list \<times> (string \<rightharpoonup> byte list)" where
  "respond wrap fs outcome = (map_sum (\<lambda>e. e) wrap (fst outcome), snd outcome, fs)"

fun app ::
  "MistralService option \<Rightarrow> int \<Rightarrow> TempFiles \<Rightarrow> (string \<rightharpoonup> byte list) \<Rightarrow> request
     \<Rightarrow> (py_exc + response) \<times> call list \<times> (string \<rightharpoonup> byte list)" where
  "app service_opt max_file_size_mb local fs Root = (Inr (JsonBody root), [], fs)"
| "app service_opt max_file_size_mb local fs (UploadDocument file) =
     (case upload_document service_opt max_file_size_mb local fs file of
        (result, calls, fs') \<Rightarrow> (map_sum (\<lambda>e. e) UploadBody result, calls, fs'))"
| "app service_opt max_file_size_mb local fs ListDocuments =
     respond ListBody fs (list_documents service_opt)"
| "app service_opt max_file_size_mb local fs (RetrieveDocument file_id) =
     respond RetrieveBody fs (retrieve_document service_opt file_id)"
| "app service_opt max_file_size_mb local fs (DeleteDocument file_id) =
     respond DeleteBody fs (delete_document service_opt file_id)"
| "app service_opt max_file_size_mb local fs (GetSignedUrl file_id expiry_hours) =
     respond SignedUrlBody fs (get_signed_url service_opt file_id expiry_hours)"
| "app service_opt max_file_size_mb local fs (QueryOcr request) =
     respond OcrBody fs (query_ocr service_opt request)"
| "app service_opt max_file_size_mb local fs (QueryDocument request) =
     respond QaBody fs (query_document service_opt request)"
| "app service_opt max_file_size_mb local fs (QueryDocumentConversation request) =
     respond ConversationBody fs (query_document_conversation service_opt request)"
| "app service_opt max_file_size_mb local fs (QueryDocumentStream request) =
     respond EventStream fs (query_document_stream service_opt request)"
| "app service_opt max_file_size_mb local fs (QueryDocumentConversationStream request) =
     respond EventStream fs (query_document_conversation_stream service_opt request)"
| "app service_opt max_file_size_mb local fs HealthCheck =
     (Inr (JsonBody (health_check service_opt)), [], fs)"


section \<open>Vocabulary of the specification\<close>

text \<open>
  The text an increment of a stream carries: the content of its first choice's delta,
  and nothing when there is no choice or no content.
\<close>

definition increment_text :: "Chunk \<Rightarrow> string" where
  "increment_text chunk =
     (case data_choices chunk of
        [] \<Rightarrow> []
      | choice # _ \<Rightarrow> (case delta_content choice of None \<Rightarrow> [] | Some text \<Rightarrow> text))"

text \<open>The two kinds of frame: \<^verbatim>\<open>{"content": text}\<close> and \<^verbatim>\<open>{"done": true}\<close>.\<close>

definition content_event :: "string \<Rightarrow> pyval" where
  "content_event text = PDict [(''content'', PStr text)]"

definition done_event :: pyval where
  "done_event = PDict [(''done'', PBool True)]"

text \<open>A source page provides an image when it has the attribute and its value is not empty.\<close>

definition image_provided :: "OCRPageObject \<Rightarrow> bool" where
  "image_provided page =
     (case pg_image_base64 page of Some image_base64 \<Rightarrow> image_base64 \<noteq> [] | None \<Rightarrow> False)"

text \<open>The dictionary that one round of the loop of \<open>format_ocr_pages\<close> appends.\<close>

definition formatted_page :: "OCRPageObject \<Rightarrow> (string \<times> pyval) list" where
  "formatted_page page =
     [(''index'', PInt (pg_index page)), (''markdown'', PStr (pg_markdown page))]
     @ (case pg_image_base64 page of
          Some image_base64 \<Rightarrow>
            if image_base64 \<noteq> [] then [(''image_base64'', PStr image_base64)] else []
        | None \<Rightarrow> [])"

text \<open>A conversation turn as an entry of the history.\<close>

definition turn :: "ConversationMessage \<Rightarrow> pyval" where
  "turn msg = PDict [(''role'', PStr (msg_role msg)), (''content'', PStr (msg_content msg))]"

text \<open>The specification's \<open>InvalidConversation\<close> and its "service not initialized" condition.\<close>

definition InvalidConversation :: py_exc where
  "InvalidConversation = HTTPException 400 (Detail ''last message must be from user'')"

definition not_initialized :: py_exc where
  "not_initialized = HTTPException 500 (Detail ''mistral service not initialized'')"

text \<open>
  An upload call reaches the staging of its content to a temporary file when the adapter
  is there and both validations pass. The local operations of a call in which none of
  them raises are \<open>local_ok\<close>.
\<close>

definition stages :: "MistralService option \<Rightarrow> int \<Rightarrow> UploadFile \<Rightarrow> bool" where
  "stages service_opt max_file_size_mb file =
     ((case service_opt of None \<Rightarrow> False | Some service \<Rightarrow> True) \<and>
      fst (validate_pdf file max_file_size_mb) \<and>
      fst (validate_file_size (body file) max_file_size_mb))"

definition local_ok :: "string \<Rightarrow> TempFiles" where
  "local_ok path =
     \<lparr>tmp_file_path = path, create_error = None, write_error = None, written = 0,
      open_error = None, unlink_error = None\<rparr>"

text \<open>
  Concrete providers and objects for the examples: a provider that answers every
  operation with the given objects, one whose every operation raises, a file object
  without any of the attributes that may be absent, a page whose image value is the
  empty string, and a chat completion with its usage.
\<close>

definition fixed_provider ::
  "FileObject \<Rightarrow> OCRResponseObject \<Rightarrow> ChatResponse \<Rightarrow> Chunk list \<Rightarrow> Client" where
  "fixed_provider file_object ocr_response chat_response stream =
     \<lparr>files_upload = (\<lambda>file_name file_content purpose. Inr file_object),
      files_retrieve = (\<lambda>file_id. Inr file_object),
      files_get_signed_url =
        (\<lambda>file_id expiry. Inr \<lparr>su_url = ''https://files.example/'' @ file_id\<rparr>),
      files_list = Inr \<lparr>fl_data = Some [file_object]\<rparr>,
      files_delete = (\<lambda>file_id. Inr ()),
      ocr_process = (\<lambda>model document_url include_image_base64. Inr ocr_response),
      chat_complete = (\<lambda>model messages. Inr chat_response),
      chat_stream = (\<lambda>model messages. Inr stream)\<rparr>"

definition failing_provider :: Client where
  "failing_provider =
     \<lparr>files_upload = (\<lambda>file_name file_content purpose. Inl (SdkError ''unavailable'')),
      files_retrieve = (\<lambda>file_id. Inl (SdkError ''unavailable'')),
      files_get_signed_url = (\<lambda>file_id expiry. Inl (SdkError ''unavailable'')),
      files_list = Inl (SdkError ''unavailable''),
      files_delete = (\<lambda>file_id. Inl (SdkError ''unavailable'')),
      ocr_process = (\<lambda>model document_url include_image_base64. Inl (SdkError ''unavailable'')),
      chat_complete = (\<lambda>model messages. Inl (SdkError ''unavailable'')),
      chat_stream = (\<lambda>model messages. Inl (SdkError ''unavailable''))\<rparr>"

definition bare_file :: FileObject where
  "bare_file =
     \<lparr>fo_id = ''file-0001'', fo_object = ''file'', fo_bytes = Absent, fo_created_at = 1700000000,
      fo_filename = ''report.pdf'', fo_purpose = ''ocr'', fo_sample_type = Absent,
      fo_num_lines = Absent, fo_mimetype = Absent, fo_source = Absent, fo_signature = Absent,
      fo_deleted = Absent\<rparr>"

definition empty_image_page :: OCRPageObject where
  "empty_image_page = \<lparr>pg_index = 0, pg_markdown = ''text'', pg_image_base64 = Some []\<rparr>"

definition plain_chat :: ChatResponse where
  "plain_chat =
     \<lparr>ch_choices = [\<lparr>message_content = ''answer''\<rparr>], ch_model = ''mistral-small-latest'',
      ch_usage = Some \<lparr>prompt_tokens = 100, completion_tokens = 50, total_tokens = 150\<rparr>\<rparr>"


section \<open>Properties of the validator\<close>

lemma endswith_suffix: "endswith s suf \<longleftrightarrow> suffix suf s"
  unfolding endswith_def suffix_def
  by (metis append_eq_conv_conj append_take_drop_id diff_add_inverse2 le_add2
      length_append length_drop)

lemma lower_char_eq_p: "lower_char c = CHR ''p'' \<longleftrightarrow> c = CHR ''p'' \<or> c = CHR ''P''"
  by (auto simp: lower_char_def split: if_splits)

lemma lower_char_eq_d: "lower_char c = CHR ''d'' \<longleftrightarrow> c = CHR ''d'' \<or> c = CHR ''D''"
  by (auto simp: lower_char_def split: if_splits)

lemma lower_char_eq_f: "lower_char c = CHR ''f'' \<longleftrightarrow> c = CHR ''f'' \<or> c = CHR ''F''"
  by (auto simp: lower_char_def split: if_splits)

lemma lower_char_eq_dot: "lower_char c = CHR ''.'' \<longleftrightarrow> c = CHR ''.''"
  by (auto simp: lower_char_def split: if_splits)

lemma lower_eq_pdf: "lower e = ''.pdf'' \<longleftrightarrow> e \<in> set pdf_extension_spellings"
proof -
  have "lower e = ''.pdf'' \<longleftrightarrow>
        (\<exists>a b c d. e = [a, b, c, d] \<and> lower_char a = CHR ''.'' \<and> lower_char b = CHR ''p''
           \<and> lower_char c = CHR ''d'' \<and> lower_char d = CHR ''f'')"
    by (auto simp: lower_def map_eq_Cons_conv)
  also have "\<dots> \<longleftrightarrow> e \<in> set pdf_extension_spellings"
    unfolding lower_char_eq_p lower_char_eq_d lower_char_eq_f lower_char_eq_dot
    by (auto simp: pdf_extension_spellings_def)
  finally show ?thesis .
qed

lemma suffix_lower: "suffix ''.pdf'' (lower name) \<longleftrightarrow> (\<exists>e. suffix e name \<and> lower e = ''.pdf'')"
proof
  assume "suffix ''.pdf'' (lower name)"
  then obtain pre where "map lower_char name = pre @ ''.pdf''"
    by (auto simp: suffix_def lower_def)
  then obtain p e where "name = p @ e" and "map lower_char e = ''.pdf''"
    by (auto simp: map_eq_append_conv)
  then show "\<exists>e. suffix e name \<and> lower e = ''.pdf''"
    by (auto simp: suffix_def lower_def)
next
  assume "\<exists>e. suffix e name \<and> lower e = ''.pdf''"
  then obtain p e where "name = p @ e" and "lower e = ''.pdf''"
    by (auto simp: suffix_def)
  then have "lower name = lower p @ ''.pdf''"
    by (simp add: lower_def)
  then show "suffix ''.pdf'' (lower name)"
    by (simp add: suffix_def)
qed

lemma extension_test: "endswith (lower name) ''.pdf'' \<longleftrightarrow> ends_in_pdf_extension name"
  by (auto simp: endswith_suffix suffix_lower lower_eq_pdf ends_in_pdf_extension_def list_ex_iff)

text \<open>
  Claim C7. A missing file name (\<^verbatim>\<open>None\<close>, or the empty string, which Python's
  \<^verbatim>\<open>not\<close> treats alike) is rejected with \<open>MissingFilename\<close> before the extension is
  looked at. A name that is there is rejected with \<open>UnsupportedType\<close> when it does not
  end in \<^verbatim>\<open>.pdf\<close> in any mix of upper and lower case, and accepted when it does.
\<close>

theorem validate_pdf_extension:
  "(filename file = None \<or> filename file = Some [] \<longrightarrow>
      validate_pdf file max_size_mb = (False, MissingFilename)) \<and>
   (\<forall>name. filename file = Some name \<and> name \<noteq> [] \<and> \<not> ends_in_pdf_extension name \<longrightarrow>
      validate_pdf file max_size_mb = (False, UnsupportedType)) \<and>
   (\<forall>name. filename file = Some name \<and> ends_in_pdf_extension name \<longrightarrow>
      validate_pdf file max_size_mb = (True, []))"
proof (intro conjI allI impI)
  assume "filename file = None \<or> filename file = Some []"
  then show "validate_pdf file max_size_mb = (False, MissingFilename)"
    by (auto simp: validate_pdf_def MissingFilename_def)
next
  fix name
  assume "filename file = Some name \<and> name \<noteq> [] \<and> \<not> ends_in_pdf_extension name"
  then show "validate_pdf file max_size_mb = (False, UnsupportedType)"
    by (simp add: validate_pdf_def UnsupportedType_def extension_test)
next
  fix name
  assume h: "filename file = Some name \<and> ends_in_pdf_extension name"
  then have "name \<noteq> []"
    by (auto simp: ends_in_pdf_extension_def list_ex_iff pdf_extension_spellings_def)
  with h show "validate_pdf file max_size_mb = (True, [])"
    by (simp add: validate_pdf_def extension_test)
qed

theorem validate_pdf_extension_witness:
  "validate_pdf \<lparr>filename = None, body = []\<rparr> 50 = (False, MissingFilename) \<and>
   validate_pdf \<lparr>filename = Some ''notes.txt'', body = []\<rparr> 50 = (False, UnsupportedType) \<and>
   validate_pdf \<lparr>filename = Some ''Report.PDF'', body = []\<rparr> 50 = (True, [])"
proof -
  have a: "\<not> ends_in_pdf_extension ''notes.txt''"
    by (simp add: ends_in_pdf_extension_def pdf_extension_spellings_def suffix_Cons)
  have b: "ends_in_pdf_extension ''Report.PDF''"
    by (simp add: ends_in_pdf_extension_def pdf_extension_spellings_def suffix_Cons)
  show ?thesis
    using a b
      validate_pdf_extension [of "\<lparr>filename = None, body = []\<rparr>" 50]
      validate_pdf_extension [of "\<lparr>filename = Some ''notes.txt'', body = []\<rparr>" 50]
      validate_pdf_extension [of "\<lparr>filename = Some ''Report.PDF'', body = []\<rparr>" 50]
    by simp
qed

text \<open>
  Claim C6. Content of length 0 is rejected with \<open>EmptyFile\<close>, content of exactly
  \<open>max_size_mb * 1048576\<close> bytes is accepted, and content one byte longer is rejected
  with \<open>FileTooLarge\<close>. The ceiling is a positive number of megabytes: with a ceiling
  of 0 the first two cases are the same content, and below 0 no content has the length
  of the second and third.
\<close>

theorem validate_file_size_boundaries:
  "(0 \<le> max_size_mb \<and> length content = 0 \<longrightarrow>
      validate_file_size content max_size_mb = (False, EmptyFile)) \<and>
   (0 < max_size_mb \<and> int (length content) = max_size_mb * 1048576 \<longrightarrow>
      validate_file_size content max_size_mb = (True, [])) \<and>
   (int (length content) = max_size_mb * 1048576 + 1 \<longrightarrow>
      validate_file_size content max_size_mb = (False, FileTooLarge max_size_mb))"
  by (auto simp: validate_file_size_def EmptyFile_def FileTooLarge_def Let_def)

theorem validate_file_size_boundaries_witness:
  "validate_file_size [] 1 = (False, EmptyFile) \<and>
   validate_file_size (replicate 1048576 0) 1 = (True, []) \<and>
   validate_file_size (replicate 1048577 0) 1 = (False, FileTooLarge 1)"
  using validate_file_size_boundaries [of 1 "[]"]
    validate_file_size_boundaries [of 1 "replicate 1048576 0"]
    validate_file_size_boundaries [of 1 "replicate 1048577 0"]
  by simp


section \<open>Properties of the response mapper\<close>

lemma for_append_map: "for_append f acc xs = acc @ map f xs"
  by (induction xs arbitrary: acc) auto

lemma format_ocr_pages_loop_map:
  "format_ocr_pages_loop acc pages = acc @ map formatted_page pages"
  by (induction pages arbitrary: acc) (auto simp: formatted_page_def Let_def split: option.splits)

lemma format_ocr_pages_nth:
  assumes "i < length pages"
  shows "format_ocr_pages pages ! i = formatted_page (pages ! i)"
  using assms by (simp add: format_ocr_pages_def format_ocr_pages_loop_map)

text \<open>
  What the mappings of the routes do with a provider file object: one that has every
  optional attribute with a value is reproduced, one that has none of them gets the
  defaults, and one that has an attribute with the value \<^verbatim>\<open>None\<close> is refused by
  the response schema.
\<close>

lemma file_response_mappings:
  "upload_response
     \<lparr>fo_id = i, fo_object = ob, fo_bytes = Value b, fo_created_at = ca, fo_filename = fn,
      fo_purpose = pu, fo_sample_type = Value st, fo_num_lines = Value nl, fo_mimetype = Value mt,
      fo_source = Value so, fo_signature = Value sg, fo_deleted = dl\<rparr> content
   = Inr \<lparr>up_id = i, up_object = ob, up_bytes = b, up_created_at = ca, up_filename = fn,
      up_purpose = pu, up_sample_type = st, up_num_lines = nl, up_mimetype = mt,
      up_source = so, up_signature = sg\<rparr>
   \<and>
   upload_response
     \<lparr>fo_id = i, fo_object = ob, fo_bytes = Absent, fo_created_at = ca, fo_filename = fn,
      fo_purpose = pu, fo_sample_type = Absent, fo_num_lines = Absent, fo_mimetype = Absent,
      fo_source = Absent, fo_signature = Absent, fo_deleted = dl\<rparr> content
   = Inr \<lparr>up_id = i, up_object = ob, up_bytes = int (length content), up_created_at = ca,
      up_filename = fn, up_purpose = pu, up_sample_type = ''ocr_input'', up_num_lines = 0,
      up_mimetype = ''application/pdf'', up_source = ''upload'', up_signature = []\<rparr>
   \<and>
   retrieve_response
     \<lparr>fo_id = i, fo_object = ob, fo_bytes = Value b, fo_created_at = ca, fo_filename = fn,
      fo_purpose = pu, fo_sample_type = Value st, fo_num_lines = Value nl, fo_mimetype = Value mt,
      fo_source = Value so, fo_signature = Value sg, fo_deleted = Value d\<rparr>
   = Inr \<lparr>rt_id = i, rt_object = ob, rt_bytes = b, rt_created_at = ca, rt_filename = fn,
      rt_purpose = pu, rt_sample_type = st, rt_num_lines = nl, rt_mimetype = mt,
      rt_source = so, rt_signature = sg, rt_deleted = d\<rparr>
   \<and>
   retrieve_response
     \<lparr>fo_id = i, fo_object = ob, fo_bytes = Absent, fo_created_at = ca, fo_filename = fn,
      fo_purpose = pu, fo_sample_type = Absent, fo_num_lines = Absent, fo_mimetype = Absent,
      fo_source = Absent, fo_signature = Absent, fo_deleted = Absent\<rparr>
   = Inr \<lparr>rt_id = i, rt_object = ob, rt_bytes = 0, rt_created_at = ca, rt_filename = fn,
      rt_purpose = pu, rt_sample_type = ''ocr_input'', rt_num_lines = 0,
      rt_mimetype = ''application/pdf'', rt_source = ''upload'', rt_signature = [],
      rt_deleted = False\<rparr>
   \<and>
   format_file_metadata
     \<lparr>fo_id = i, fo_object = ob, fo_bytes = Value b, fo_created_at = ca, fo_filename = fn,
      fo_purpose = pu, fo_sample_type = Value st, fo_num_lines = Value nl, fo_mimetype = Value mt,
      fo_source = Value so, fo_signature = Value sg, fo_deleted = Value d\<rparr>
   = Inr [(''id'', PStr i), (''object'', PStr ob), (''bytes'', PInt b), (''created_at'', PInt ca),
          (''filename'', PStr fn), (''purpose'', PStr pu), (''sample_type'', PStr st),
          (''num_lines'', PInt nl), (''mimetype'', PStr mt), (''source'', PStr so),
          (''signature'', PStr sg), (''deleted'', PBool d)]"
  by (simp add: upload_response_def retrieve_response_def format_file_metadata_def getattr_def
      attribute_value_def)

lemma file_response_none_refused:
  "fo_mimetype uploaded = PyNone \<Longrightarrow> upload_response uploaded content = Inl ValidationError"
  "fo_mimetype uploaded = PyNone \<Longrightarrow> retrieve_response uploaded = Inl ValidationError"
  by (auto simp: upload_response_def retrieve_response_def getattr_def
      split: option.splits prod.splits attribute.splits)

lemma routes_apply_file_mappings:
  "(stages (Some service) max_file_size_mb file \<and> filename file = Some name \<and>
    files_upload (client service) name (body file) ''ocr'' = Inr uploaded \<longrightarrow>
      fst (upload_document (Some service) max_file_size_mb (local_ok path) fs file)
        = map_sum (except_HTTPException_raise 500 ''failed to upload file'') (\<lambda>r. r)
            (upload_response uploaded (body file))) \<and>
   (files_retrieve (client service) file_id = Inr retrieved \<longrightarrow>
      fst (retrieve_document (Some service) file_id)
        = map_sum (except_Exception 404 ''file not found'') (\<lambda>r. r)
            (retrieve_response retrieved))"
  by (auto simp: upload_document_def stages_def local_ok_def Let_def
      MistralService_upload_file_def retrieve_document_def MistralService_retrieve_file_def
      split: prod.splits sum.splits)

text \<open>
  Claim C1. A provider file object without its optional attributes is mapped to a
  record of the documented defaults by each route: \<^verbatim>\<open>upload_document\<close> (byte count
  the measured length of the content), \<^verbatim>\<open>retrieve_document\<close> and
  \<^verbatim>\<open>list_documents\<close> (byte count 0). \<^verbatim>\<open>format_file_metadata\<close>, given the same
  object, does not return a record: it raises \<^verbatim>\<open>AttributeError\<close>.
\<close>

theorem format_file_metadata_no_defaults:
  "format_file_metadata bare_file = Inl AttributeError
   \<and>
   fst (upload_document
          (Some \<lparr>api_key = ''key'',
                 client = fixed_provider bare_file \<lparr>ocr_pages = []\<rparr> plain_chat []\<rparr>)
          50 (local_ok ''/tmp/tmpk3v9.pdf'') Map.empty
          \<lparr>filename = Some ''report.pdf'', body = [37, 80, 68, 70]\<rparr>)
   = Inr \<lparr>up_id = ''file-0001'', up_object = ''file'', up_bytes = 4,
          up_created_at = 1700000000, up_filename = ''report.pdf'', up_purpose = ''ocr'',
          up_sample_type = ''ocr_input'', up_num_lines = 0, up_mimetype = ''application/pdf'',
          up_source = ''upload'', up_signature = []\<rparr>
   \<and>
   fst (retrieve_document
          (Some \<lparr>api_key = ''key'',
                 client = fixed_provider bare_file \<lparr>ocr_pages = []\<rparr> plain_chat []\<rparr>)
          ''file-0001'')
   = Inr \<lparr>rt_id = ''file-0001'', rt_object = ''file'', rt_bytes = 0,
          rt_created_at = 1700000000, rt_filename = ''report.pdf'', rt_purpose = ''ocr'',
          rt_sample_type = ''ocr_input'', rt_num_lines = 0, rt_mimetype = ''application/pdf'',
          rt_source = ''upload'', rt_signature = [], rt_deleted = False\<rparr>
   \<and>
   fst (list_documents
          (Some \<lparr>api_key = ''key'',
                 client = fixed_provider bare_file \<lparr>ocr_pages = []\<rparr> plain_chat []\<rparr>))
   = Inr \<lparr>fl_files =
            [\<lparr>rt_id = ''file-0001'', rt_object = ''file'', rt_bytes = 0,
              rt_created_at = 1700000000, rt_filename = ''report.pdf'', rt_purpose = ''ocr'',
              rt_sample_type = ''ocr_input'', rt_num_lines = 0,
              rt_mimetype = ''application/pdf'', rt_source = ''upload'', rt_signature = [],
              rt_deleted = False\<rparr>],
          fl_total = 1\<rparr>"
  by (simp add: format_file_metadata_def bare_file_def upload_document_def local_ok_def
      validate_pdf_def validate_file_size_def lower_def lower_char_def endswith_def
      MistralService_upload_file_def fixed_provider_def upload_response_def getattr_def
      retrieve_document_def MistralService_retrieve_file_def retrieve_response_def
      list_documents_def MistralService_list_files_def)

text \<open>
  Claim C4. The question-and-answer mapping, in the formatter and in the route, takes the
  answer from the first choice and copies the three usage counters as they are. When
  the usage object is absent the mapping raises (and so does it when there is no choice);
  the route turns that into its error response, and no default is substituted.
\<close>

theorem qa_mapping:
  "(ch_usage chat_response = None \<longrightarrow>
      format_qa_response chat_response file_id question
        = Inl (if ch_choices chat_response = [] then IndexError else AttributeError) \<and>
      answer_and_usage chat_response
        = Inl (if ch_choices chat_response = [] then IndexError else AttributeError) \<and>
      (\<forall>calls.
         MistralService_query_document service (qa_file_id request) (qa_question request)
           (qa_model request) (qa_conversation_history request) = (Inr chat_response, calls) \<longrightarrow>
         query_document (Some service) request
           = (Inl (HTTPException 500
                     (Formatted ''failed to query document''
                        (if ch_choices chat_response = [] then IndexError else AttributeError))),
              calls))) \<and>
   (\<forall>choice others usage.
      ch_choices chat_response = choice # others \<and> ch_usage chat_response = Some usage \<longrightarrow>
        format_qa_response chat_response file_id question
          = Inr [(''answer'', PStr (message_content choice)),
                 (''model'', PStr (ch_model chat_response)),
                 (''usage'', PDict [(''prompt_tokens'', PInt (prompt_tokens usage)),
                                    (''completion_tokens'', PInt (completion_tokens usage)),
                                    (''total_tokens'', PInt (total_tokens usage))]),
                 (''file_id'', PStr file_id),
                 (''question'', PStr question)] \<and>
        answer_and_usage chat_response
          = Inr (message_content choice,
                 [(''prompt_tokens'', prompt_tokens usage),
                  (''completion_tokens'', completion_tokens usage),
                  (''total_tokens'', total_tokens usage)]) \<and>
        (\<forall>calls.
           MistralService_query_document service (qa_file_id request) (qa_question request)
             (qa_model request) (qa_conversation_history request) = (Inr chat_response, calls) \<longrightarrow>
           query_document (Some service) request
             = (Inr \<lparr>qr_answer = message_content choice,
                     qr_model = ch_model chat_response,
                     qr_usage = [(''prompt_tokens'', prompt_tokens usage),
                                 (''completion_tokens'', completion_tokens usage),
                                 (''total_tokens'', total_tokens usage)],
                     qr_file_id = qa_file_id request,
                     qr_question = qa_question request\<rparr>,
                calls)))"
  by (auto simp: format_qa_response_def answer_and_usage_def query_document_def
      except_Exception_def split: list.splits)

theorem qa_mapping_witness:
  "format_qa_response plain_chat ''file-0001'' ''what is this?''
     = Inr [(''answer'', PStr ''answer''),
            (''model'', PStr ''mistral-small-latest''),
            (''usage'', PDict [(''prompt_tokens'', PInt 100),
                               (''completion_tokens'', PInt 50),
                               (''total_tokens'', PInt 150)]),
            (''file_id'', PStr ''file-0001''),
            (''question'', PStr ''what is this?'')]
   \<and>
   query_document
     (Some \<lparr>api_key = ''key'',
            client = fixed_provider bare_file \<lparr>ocr_pages = []\<rparr> plain_chat []\<rparr>)
     \<lparr>qa_file_id = ''file-0001'', qa_question = ''what is this?'',
      qa_model = ''mistral-small-latest'', qa_conversation_history = None\<rparr>
     = (Inr \<lparr>qr_answer = ''answer'', qr_model = ''mistral-small-latest'',
             qr_usage = [(''prompt_tokens'', 100), (''completion_tokens'', 50),
                         (''total_tokens'', 150)],
             qr_file_id = ''file-0001'', qr_question = ''what is this?''\<rparr>,
        [FilesGetSignedUrl ''file-0001'' None,
         ChatComplete ''mistral-small-latest''
           (build_messages None ''what is this?'' ''https://files.example/file-0001'')])
   \<and>
   format_qa_response (plain_chat\<lparr>ch_usage := None\<rparr>) ''file-0001'' ''what is this?''
     = Inl AttributeError
   \<and>
   query_document
     (Some \<lparr>api_key = ''key'',
            client = fixed_provider bare_file \<lparr>ocr_pages = []\<rparr> (plain_chat\<lparr>ch_usage := None\<rparr>) []\<rparr>)
     \<lparr>qa_file_id = ''file-0001'', qa_question = ''what is this?'',
      qa_model = ''mistral-small-latest'', qa_conversation_history = None\<rparr>
     = (Inl (HTTPException 500 (Formatted ''failed to query document'' AttributeError)),
        [FilesGetSignedUrl ''file-0001'' None,
         ChatComplete ''mistral-small-latest''
           (build_messages None ''what is this?'' ''https://files.example/file-0001'')])"
  using
    qa_mapping
      [of plain_chat "''file-0001''" "''what is this?''"
          "\<lparr>api_key = ''key'',
            client = fixed_provider bare_file \<lparr>ocr_pages = []\<rparr> plain_chat []\<rparr>"
          "\<lparr>qa_file_id = ''file-0001'', qa_question = ''what is this?'',
            qa_model = ''mistral-small-latest'', qa_conversation_history = None\<rparr>"]
    qa_mapping
      [of "plain_chat\<lparr>ch_usage := None\<rparr>" "''file-0001''" "''what is this?''"
          "\<lparr>api_key = ''key'',
            client = fixed_provider bare_file \<lparr>ocr_pages = []\<rparr> (plain_chat\<lparr>ch_usage := None\<rparr>) []\<rparr>"
          "\<lparr>qa_file_id = ''file-0001'', qa_question = ''what is this?'',
            qa_model = ''mistral-small-latest'', qa_conversation_history = None\<rparr>"]
  by (simp add: plain_chat_def fixed_provider_def MistralService_query_document_def
      MistralService_get_signed_url_def)

text \<open>
  What the two mappings of OCR pages do. \<^verbatim>\<open>format_ocr_pages\<close> returns one dictionary
  per page, in the order of the pages, with the page's index and markdown unchanged, and
  with the image entry exactly when the page provided a non-empty image value, which is
  then the entry's value. The route \<^verbatim>\<open>query_ocr\<close> returns one record per page, in the
  same order and with index and markdown unchanged; the record's image field is
  \<^verbatim>\<open>None\<close> when the page has no image value, and the page's value when that value is
  not empty.
\<close>

lemma ocr_pages_mapping:
  "length (format_ocr_pages pages) = length pages \<and>
   (\<forall>i < length pages.
      map_of (format_ocr_pages pages ! i) ''index'' = Some (PInt (pg_index (pages ! i))) \<and>
      map_of (format_ocr_pages pages ! i) ''markdown'' = Some (PStr (pg_markdown (pages ! i))) \<and>
      (''image_base64'' \<in> fst ` set (format_ocr_pages pages ! i) \<longleftrightarrow> image_provided (pages ! i)) \<and>
      (image_provided (pages ! i) \<longrightarrow>
         map_of (format_ocr_pages pages ! i) ''image_base64''
           = map_option PStr (pg_image_base64 (pages ! i)))) \<and>
   (files_get_signed_url (client service) (oq_file_id request) None = Inr signed_url \<and>
    ocr_process (client service) ''mistral-ocr-latest'' (su_url signed_url)
      (oq_include_image_base64 request) = Inr ocr_response \<longrightarrow>
    (\<exists>out. fst (query_ocr (Some service) request) = Inr out \<and>
       length out = length (ocr_pages ocr_response) \<and>
       (\<forall>i < length out.
          op_index (out ! i) = pg_index (ocr_pages ocr_response ! i) \<and>
          op_markdown (out ! i) = pg_markdown (ocr_pages ocr_response ! i) \<and>
          (pg_image_base64 (ocr_pages ocr_response ! i) = None \<longrightarrow>
             op_image_base64 (out ! i) = None) \<and>
          (image_provided (ocr_pages ocr_response ! i) \<longrightarrow>
             op_image_base64 (out ! i) = pg_image_base64 (ocr_pages ocr_response ! i)))))"
proof (intro conjI allI impI)
  show "length (format_ocr_pages pages) = length pages"
    by (simp add: format_ocr_pages_def format_ocr_pages_loop_map)
next
  fix i assume "i < length pages"
  then have eq: "format_ocr_pages pages ! i = formatted_page (pages ! i)"
    by (rule format_ocr_pages_nth)
  show "map_of (format_ocr_pages pages ! i) ''index'' = Some (PInt (pg_index (pages ! i)))"
    by (simp add: eq formatted_page_def)
  show "map_of (format_ocr_pages pages ! i) ''markdown'' = Some (PStr (pg_markdown (pages ! i)))"
    by (simp add: eq formatted_page_def)
  show "''image_base64'' \<in> fst ` set (format_ocr_pages pages ! i) \<longleftrightarrow> image_provided (pages ! i)"
    by (auto simp: eq formatted_page_def image_provided_def split: option.splits)
  show "map_of (format_ocr_pages pages ! i) ''image_base64''
           = map_option PStr (pg_image_base64 (pages ! i))" if "image_provided (pages ! i)"
    using that by (auto simp: eq formatted_page_def image_provided_def split: option.splits)
next
  assume "files_get_signed_url (client service) (oq_file_id request) None = Inr signed_url \<and>
    ocr_process (client service) ''mistral-ocr-latest'' (su_url signed_url)
      (oq_include_image_base64 request) = Inr ocr_response"
  then show "\<exists>out. fst (query_ocr (Some service) request) = Inr out \<and>
       length out = length (ocr_pages ocr_response) \<and>
       (\<forall>i < length out.
          op_index (out ! i) = pg_index (ocr_pages ocr_response ! i) \<and>
          op_markdown (out ! i) = pg_markdown (ocr_pages ocr_response ! i) \<and>
          (pg_image_base64 (ocr_pages ocr_response ! i) = None \<longrightarrow>
             op_image_base64 (out ! i) = None) \<and>
          (image_provided (ocr_pages ocr_response ! i) \<longrightarrow>
             op_image_base64 (out ! i) = pg_image_base64 (ocr_pages ocr_response ! i)))"
    by (auto simp: query_ocr_def MistralService_get_signed_url_def MistralService_process_ocr_def
        for_append_map split: option.splits)
qed

text \<open>
  Claim C5. For a page whose image value is the empty string, \<^verbatim>\<open>format_ocr_pages\<close>
  leaves the image entry out, as the claim says, and the route \<^verbatim>\<open>query_ocr\<close> does
  not: the record it returns carries the image field with that empty value.
\<close>

theorem query_ocr_empty_image:
  "fst (query_ocr
          (Some \<lparr>api_key = ''key'',
                 client = fixed_provider bare_file \<lparr>ocr_pages = [empty_image_page]\<rparr> plain_chat []\<rparr>)
          \<lparr>oq_file_id = ''file-0001'', oq_include_image_base64 = True\<rparr>)
     = Inr [\<lparr>op_index = 0, op_markdown = ''text'', op_image_base64 = Some []\<rparr>]
   \<and> \<not> image_provided empty_image_page
   \<and> format_ocr_pages [empty_image_page] = [[(''index'', PInt 0), (''markdown'', PStr ''text'')]]"
  by (simp add: query_ocr_def MistralService_get_signed_url_def MistralService_process_ocr_def
      fixed_provider_def empty_image_page_def image_provided_def format_ocr_pages_def)


section \<open>Properties of the adapter\<close>

text \<open>
  Claim C10. In \<^verbatim>\<open>MistralService.get_signed_url\<close> an expiry of 0 hours is treated as
  an absent one: in both cases the provider is called without an expiry; any other
  number of hours is forwarded as it is.
\<close>

theorem signed_url_expiry:
  "(expiry_hours = None \<or> expiry_hours = Some 0 \<longrightarrow>
      MistralService_get_signed_url service file_id expiry_hours
        = (files_get_signed_url (client service) file_id None, [FilesGetSignedUrl file_id None])) \<and>
   (\<forall>hours. expiry_hours = Some hours \<and> hours \<noteq> 0 \<longrightarrow>
      MistralService_get_signed_url service file_id expiry_hours
        = (files_get_signed_url (client service) file_id (Some hours),
           [FilesGetSignedUrl file_id (Some hours)]))"
  by (auto simp: MistralService_get_signed_url_def)

theorem signed_url_expiry_witness:
  "snd (MistralService_get_signed_url \<lparr>api_key = ''key'', client = failing_provider\<rparr>
          ''file-0001'' None) = [FilesGetSignedUrl ''file-0001'' None] \<and>
   snd (MistralService_get_signed_url \<lparr>api_key = ''key'', client = failing_provider\<rparr>
          ''file-0001'' (Some 0)) = [FilesGetSignedUrl ''file-0001'' None] \<and>
   snd (MistralService_get_signed_url \<lparr>api_key = ''key'', client = failing_provider\<rparr>
          ''file-0001'' (Some 24)) = [FilesGetSignedUrl ''file-0001'' (Some 24)]"
  using
    signed_url_expiry [of None "\<lparr>api_key = ''key'', client = failing_provider\<rparr>" "''file-0001''"]
    signed_url_expiry [of "Some 0" "\<lparr>api_key = ''key'', client = failing_provider\<rparr>" "''file-0001''"]
    signed_url_expiry [of "Some 24" "\<lparr>api_key = ''key'', client = failing_provider\<rparr>" "''file-0001''"]
  by simp


section \<open>Properties of the routes\<close>

lemma conversation_history_loop_filter:
  "conversation_history_loop acc msgs =
     acc @ map turn (filter (\<lambda>m. msg_role m = ''user'' \<or> msg_role m = ''assistant'') msgs)"
  by (induction msgs arbitrary: acc) (auto simp: turn_def)

lemma filter_all: "\<forall>x \<in> set xs. P x \<Longrightarrow> filter P xs = xs"
  by (induction xs) auto

lemma generate_eq:
  "generate stream =
     map content_event (filter (\<lambda>text. text \<noteq> []) (map increment_text stream)) @ [done_event]"
  by (induction stream)
     (auto simp: increment_text_def content_event_def done_event_def
        split: list.splits option.splits)

lemma count_done_in_content:
  "count_list (map (\<lambda>x. content_event (g x)) xs) done_event = 0"
  by (induction xs) (auto simp: content_event_def done_event_def)

text \<open>
  Claim C2, as amended. For a non-empty list of messages whose last message has the
  role \<^verbatim>\<open>user\<close> and a content that is not empty, the derived question is that
  content, the history is the earlier turns whose role is \<^verbatim>\<open>user\<close> or
  \<^verbatim>\<open>assistant\<close>, in their order (all earlier turns, when there is no other role among
  them), and the question and the history are what the adapter is asked with. When the
  last message has another role, the derivation fails with \<open>InvalidConversation\<close> and
  the route invokes no provider operation.
\<close>

theorem conversation_derivation:
  "(messages \<noteq> [] \<and> msg_role (last messages) = ''user'' \<and> msg_content (last messages) \<noteq> [] \<longrightarrow>
      derive_conversation messages
        = Inr (msg_content (last messages),
               map turn (filter (\<lambda>m. msg_role m = ''user'' \<or> msg_role m = ''assistant'')
                          (butlast messages))) \<and>
      ((\<forall>m \<in> set (butlast messages). msg_role m = ''user'' \<or> msg_role m = ''assistant'') \<longrightarrow>
         derive_conversation messages
           = Inr (msg_content (last messages), map turn (butlast messages))) \<and>
      (cv_messages request = messages \<longrightarrow>
         snd (query_document_conversation (Some service) request)
           = snd (MistralService_query_document service (cv_file_id request)
                    (msg_content (last messages)) (cv_model request)
                    (let history =
                           map turn (filter (\<lambda>m. msg_role m = ''user'' \<or> msg_role m = ''assistant'')
                                      (butlast messages))
                     in if history \<noteq> [] then Some history else None))))
   \<and>
   (messages \<noteq> [] \<and> msg_role (last messages) \<noteq> ''user'' \<longrightarrow>
      derive_conversation messages = Inl InvalidConversation \<and>
      (cv_messages request = messages \<longrightarrow>
         query_document_conversation (Some service) request = (Inl InvalidConversation, [])))"
proof (intro conjI impI)
  assume h: "messages \<noteq> [] \<and> msg_role (last messages) = ''user'' \<and> msg_content (last messages) \<noteq> []"
  then show d: "derive_conversation messages
        = Inr (msg_content (last messages),
               map turn (filter (\<lambda>m. msg_role m = ''user'' \<or> msg_role m = ''assistant'')
                          (butlast messages)))"
    by (simp add: derive_conversation_def conversation_history_loop_filter)
  show "derive_conversation messages = Inr (msg_content (last messages), map turn (butlast messages))"
    if "\<forall>m \<in> set (butlast messages). msg_role m = ''user'' \<or> msg_role m = ''assistant''"
    using d filter_all [OF that] by simp
  show "snd (query_document_conversation (Some service) request)
           = snd (MistralService_query_document service (cv_file_id request)
                    (msg_content (last messages)) (cv_model request)
                    (let history =
                           map turn (filter (\<lambda>m. msg_role m = ''user'' \<or> msg_role m = ''assistant'')
                                      (butlast messages))
                     in if history \<noteq> [] then Some history else None))"
    if "cv_messages request = messages"
    using d that
    by (simp add: query_document_conversation_def Let_def split: prod.splits sum.splits)
next
  assume h: "messages \<noteq> [] \<and> msg_role (last messages) \<noteq> ''user''"
  then show d: "derive_conversation messages = Inl InvalidConversation"
    by (simp add: derive_conversation_def InvalidConversation_def)
  show "query_document_conversation (Some service) request = (Inl InvalidConversation, [])"
    if "cv_messages request = messages"
    using d that
    by (simp add: query_document_conversation_def InvalidConversation_def
        except_HTTPException_raise_def)
qed

text \<open>The specification's example, and a conversation that ends with the assistant.\<close>

theorem conversation_derivation_witness:
  "derive_conversation
     [\<lparr>msg_role = ''user'', msg_content = ''A''\<rparr>,
      \<lparr>msg_role = ''assistant'', msg_content = ''B''\<rparr>,
      \<lparr>msg_role = ''user'', msg_content = ''C''\<rparr>]
   = Inr (''C'', [PDict [(''role'', PStr ''user''), (''content'', PStr ''A'')],
                  PDict [(''role'', PStr ''assistant''), (''content'', PStr ''B'')]])
   \<and>
   query_document_conversation
     (Some \<lparr>api_key = ''key'',
            client = fixed_provider bare_file \<lparr>ocr_pages = []\<rparr> plain_chat []\<rparr>)
     \<lparr>cv_file_id = ''file-0001'',
      cv_messages = [\<lparr>msg_role = ''user'', msg_content = ''A''\<rparr>,
                     \<lparr>msg_role = ''assistant'', msg_content = ''B''\<rparr>],
      cv_model = ''mistral-small-latest''\<rparr>
   = (Inl (HTTPException 400 (Detail ''last message must be from user'')), [])"
  using conversation_derivation
    [of "[\<lparr>msg_role = ''user'', msg_content = ''A''\<rparr>,
          \<lparr>msg_role = ''assistant'', msg_content = ''B''\<rparr>,
          \<lparr>msg_role = ''user'', msg_content = ''C''\<rparr>]"]
    conversation_derivation
    [of "[\<lparr>msg_role = ''user'', msg_content = ''A''\<rparr>,
          \<lparr>msg_role = ''assistant'', msg_content = ''B''\<rparr>]"
        "\<lparr>cv_file_id = ''file-0001'',
          cv_messages = [\<lparr>msg_role = ''user'', msg_content = ''A''\<rparr>,
                         \<lparr>msg_role = ''assistant'', msg_content = ''B''\<rparr>],
          cv_model = ''mistral-small-latest''\<rparr>"
        "\<lparr>api_key = ''key'',
          client = fixed_provider bare_file \<lparr>ocr_pages = []\<rparr> plain_chat []\<rparr>"]
  by (simp add: turn_def InvalidConversation_def)

text \<open>
  Claim C2 as it was stated fails at two inputs. A last message from the user whose
  content is empty yields no question: the derivation fails. An earlier turn whose role
  is neither \<^verbatim>\<open>user\<close> nor \<^verbatim>\<open>assistant\<close> is not part of the history.
\<close>

theorem conversation_derivation_counterexample:
  "derive_conversation [\<lparr>msg_role = ''user'', msg_content = []\<rparr>]
     = Inl (HTTPException 400 (Detail ''no user message found''))
   \<and>
   derive_conversation
     [\<lparr>msg_role = ''system'', msg_content = ''be brief''\<rparr>,
      \<lparr>msg_role = ''user'', msg_content = ''C''\<rparr>]
     = Inr (''C'', [])"
  by (simp add: derive_conversation_def)

text \<open>
  Claim C3. For every finite upstream sequence, the relay yields one content event for
  each increment that carries a non-empty text, in the order of arrival and with the
  text as it came, nothing for the other increments, and then the completion event:
  it is the last event, it occurs once, and it is no content event.
\<close>

theorem streaming_relay:
  "generate stream =
     map content_event (filter (\<lambda>text. text \<noteq> []) (map increment_text stream)) @ [done_event]
   \<and> last (generate stream) = done_event
   \<and> count_list (generate stream) done_event = 1
   \<and> length (generate stream) = length (filter (\<lambda>chunk. increment_text chunk \<noteq> []) stream) + 1
   \<and> (\<forall>text. content_event text \<noteq> done_event)"
proof -
  have "\<forall>text. content_event text \<noteq> done_event"
    by (simp add: content_event_def done_event_def)
  then show ?thesis
    by (simp add: generate_eq filter_map comp_def count_done_in_content)
qed

text \<open>The specification's example: the increments \<^verbatim>\<open>"Hi"\<close>, \<^verbatim>\<open>""\<close>, \<^verbatim>\<open>" there"\<close>.\<close>

theorem streaming_relay_witness:
  "generate [\<lparr>data_choices = [\<lparr>delta_content = Some ''Hi''\<rparr>]\<rparr>,
             \<lparr>data_choices = [\<lparr>delta_content = Some []\<rparr>]\<rparr>,
             \<lparr>data_choices = [\<lparr>delta_content = Some '' there''\<rparr>]\<rparr>]
   = [PDict [(''content'', PStr ''Hi'')], PDict [(''content'', PStr '' there'')],
      PDict [(''done'', PBool True)]]"
  using streaming_relay
    [of "[\<lparr>data_choices = [\<lparr>delta_content = Some ''Hi''\<rparr>]\<rparr>,
          \<lparr>data_choices = [\<lparr>delta_content = Some []\<rparr>]\<rparr>,
          \<lparr>data_choices = [\<lparr>delta_content = Some '' there''\<rparr>]\<rparr>]"]
  by (simp add: content_event_def done_event_def increment_text_def)

text \<open>
  The exit paths of an upload call that clean up. When creating, writing and unlinking
  the temporary file do not raise, a call that reaches the staging leaves no temporary
  file behind, whether the reopening or the provider upload raises or not: the file
  system after the call is the one before it without the temporary path.
\<close>

lemma upload_cleanup_after_write:
  "(stages service_opt max_file_size_mb file \<and> create_error local = None \<and>
    write_error local = None \<and> unlink_error local = None \<longrightarrow>
      snd (snd (upload_document service_opt max_file_size_mb local fs file))
        = fs(tmp_file_path local := None)) \<and>
   (\<not> stages service_opt max_file_size_mb file \<or> create_error local \<noteq> None \<longrightarrow>
      snd (snd (upload_document service_opt max_file_size_mb local fs file)) = fs) \<and>
   (\<forall>service name e.
      service_opt = Some service \<and> stages service_opt max_file_size_mb file \<and>
      filename file = Some name \<and>
      files_upload (client service) name (body file) ''ocr'' = Inl (SdkError e) \<longrightarrow>
        upload_document service_opt max_file_size_mb (local_ok path) fs file
          = (Inl (HTTPException 500 (Formatted ''failed to upload file'' (SdkError e))),
             [FilesUpload name (body file) ''ocr''],
             fs(path := None)))"
  by (auto simp: upload_document_def stages_def local_ok_def Let_def
      MistralService_upload_file_def except_HTTPException_raise_def
      split: option.splits prod.splits sum.splits)

text \<open>
  Claim C8. The exit path that does not clean up: the temporary file has been created
  and the write of the content raises. The call ends with its error response, no
  provider operation has been invoked, and the temporary file is still there.
\<close>

theorem upload_write_failure_keeps_tmp:
  "upload_document (Some \<lparr>api_key = ''key'', client = failing_provider\<rparr>) 50
     \<lparr>tmp_file_path = ''/tmp/tmpk3v9.pdf'', create_error = None,
      write_error = Some (OSError ''No space left on device''), written = 2,
      open_error = None, unlink_error = None\<rparr>
     Map.empty \<lparr>filename = Some ''report.pdf'', body = [37, 80, 68, 70]\<rparr>
   = (Inl (HTTPException 500
             (Formatted ''failed to upload file'' (OSError ''No space left on device''))),
      [],
      [''/tmp/tmpk3v9.pdf'' \<mapsto> [37, 80]])"
  by (simp add: upload_document_def validate_pdf_def validate_file_size_def lower_def
      lower_char_def endswith_def except_HTTPException_raise_def)

text \<open>
  Claim C9, as amended. When the construction of the adapter failed, every route that
  needs the provider answers with the same error, status 500 and detail
  \<^verbatim>\<open>mistral service not initialized\<close>, before it validates anything, and invokes no
  provider operation; the root route and the health check still answer, the health
  check reporting that the adapter is not initialized. The construction fails when the
  credential is absent or empty.
\<close>

theorem uninitialized_adapter:
  "(request \<noteq> Root \<and> request \<noteq> HealthCheck \<longrightarrow>
      app None max_file_size_mb local fs request = (Inl not_initialized, [], fs)) \<and>
   app None max_file_size_mb local fs HealthCheck
     = (Inr (JsonBody (PDict [(''status'', PStr ''healthy''),
                              (''mistral_service_initialized'', PBool False)])), [], fs) \<and>
   app None max_file_size_mb local fs Root = (Inr (JsonBody root), [], fs) \<and>
   (environ_key = None \<or> environ_key = Some [] \<longrightarrow> mistral_service Mistral environ_key = None)"
  by (cases request)
     (auto simp: not_initialized_def respond_def upload_document_def list_documents_def
        retrieve_document_def delete_document_def get_signed_url_def query_ocr_def
        query_document_def query_document_conversation_def query_document_stream_def
        query_document_conversation_stream_def health_check_def mistral_service_def
        MistralService_init_def)

theorem uninitialized_adapter_witness:
  "mistral_service (\<lambda>key. failing_provider) None = None \<and>
   app (mistral_service (\<lambda>key. failing_provider) None) 50 (local_ok ''/tmp/tmpk3v9.pdf'') Map.empty
     (UploadDocument \<lparr>filename = None, body = []\<rparr>)
   = (Inl (HTTPException 500 (Detail ''mistral service not initialized'')), [], Map.empty) \<and>
   app (mistral_service (\<lambda>key. failing_provider) None) 50 (local_ok ''/tmp/tmpk3v9.pdf'') Map.empty
     (QueryDocumentConversationStream
        \<lparr>cv_file_id = ''file-0001'', cv_messages = [], cv_model = ''mistral-small-latest''\<rparr>)
   = (Inl (HTTPException 500 (Detail ''mistral service not initialized'')), [], Map.empty)"
  using
    uninitialized_adapter
      [of "UploadDocument \<lparr>filename = None, body = []\<rparr>" 50 "local_ok ''/tmp/tmpk3v9.pdf''" Map.empty
          None "\<lambda>key. failing_provider"]
    uninitialized_adapter
      [of "QueryDocumentConversationStream
             \<lparr>cv_file_id = ''file-0001'', cv_messages = [], cv_model = ''mistral-small-latest''\<rparr>"
          50 "local_ok ''/tmp/tmpk3v9.pdf''" Map.empty None "\<lambda>key. failing_provider"]
  by (simp add: not_initialized_def)

text \<open>
  Claim C9 as it was stated fails at the health check: with no adapter, this inbound
  call is answered normally and not with the error.
\<close>

theorem uninitialized_adapter_counterexample:
  "fst (app None 50 (local_ok ''/tmp/tmpk3v9.pdf'') Map.empty HealthCheck)
     = Inr (JsonBody (PDict [(''status'', PStr ''healthy''),
                             (''mistral_service_initialized'', PBool False)]))
   \<and> fst (app None 50 (local_ok ''/tmp/tmpk3v9.pdf'') Map.empty HealthCheck) \<noteq> Inl not_initialized"
  by (simp add: health_check_def)

end
